theory Spec2Isabelle
  imports Complex_Main
begin

section \<open>Values of the host language\<close>

text \<open>
  The module \<^verbatim>\<open>src/index.ts\<close> resolves a target name to a position through the Sesame
  web service. It is one function, \<^verbatim>\<open>targetPosition\<close>, and a setter, \<^verbatim>\<open>setMirror\<close>,
  for the module variable \<^verbatim>\<open>BASE_URL\<close>.

  Strings are lists of characters; string equality, as in the source, is equality of the
  character sequences. The module itself only compares and concatenates strings: what
  looks into their characters (trimming, lower-casing, encoding, parsing) is a built-in
  function, and these are parameters below. An error value is what a promise is rejected with: an
  \<^verbatim>\<open>Error\<close> object (identified by its message), a \<^verbatim>\<open>TypeError\<close> (reading a property
  of \<^verbatim>\<open>undefined\<close> or \<^verbatim>\<open>null\<close>) or a \<^verbatim>\<open>URIError\<close>.
\<close>

datatype js_error = Error string | TypeError | URIError

text \<open>
  A \<^verbatim>\<open>number\<close> is never computed with in this module: it is produced by
  \<^verbatim>\<open>parseFloat\<close>, tested with \<^verbatim>\<open>isNaN\<close> and stored; the literal \<^verbatim>\<open>2000\<close> is the only
  other number. A finite number is kept as its real value (the two zeros are one).
\<close>

datatype number = NaN | Infinity | NegInfinity | Num real

definition isNaN :: "number \<Rightarrow> bool" where
  "isNaN n = (n = NaN)"

text \<open>
  \<^verbatim>\<open>interface IPosition { rightAscension: number; declination: number; equinox: number; }\<close>
\<close>

record IPosition =
  rightAscension :: number
  declination :: number
  equinox :: number

text \<open>
  The second argument of the callback of \<^verbatim>\<open>parseString\<close> has the type \<^verbatim>\<open>any\<close>. The
  values xml2js builds are strings, arrays and plain objects (an association list of the
  own properties; the first binding of a name is the property), and the callback can
  also be handed \<^verbatim>\<open>undefined\<close> or \<^verbatim>\<open>null\<close>.
\<close>

datatype jsval =
  Undefined
  | Null
  | Str string
  | Arr "jsval list"
  | Obj "(string \<times> jsval) list"

text \<open>
  \<^verbatim>\<open>v.name\<close>, for the names the source reads (\<^verbatim>\<open>Sesame\<close>, \<^verbatim>\<open>Target\<close>, \<^verbatim>\<open>Resolver\<close>,
  \<^verbatim>\<open>jradeg\<close>, \<^verbatim>\<open>jdedeg\<close>): a \<^verbatim>\<open>TypeError\<close> on \<^verbatim>\<open>undefined\<close> and \<^verbatim>\<open>null\<close>, the own
  property of an object or \<^verbatim>\<open>undefined\<close> when it has none, and \<^verbatim>\<open>undefined\<close> on a
  string or an array, which have no property of these names.
\<close>

fun get_property :: "jsval \<Rightarrow> string \<Rightarrow> js_error + jsval" where
  "get_property Undefined name = Inl TypeError"
| "get_property Null name = Inl TypeError"
| "get_property (Str s) name = Inr Undefined"
| "get_property (Arr xs) name = Inr Undefined"
| "get_property (Obj props) name =
     Inr (case map_of props name of None \<Rightarrow> Undefined | Some v \<Rightarrow> v)"

text \<open>
  \<^verbatim>\<open>v[0]\<close>: the first element of an array, the first character of a string (as a string
  of length one), the property named \<^verbatim>\<open>0\<close> of an object; \<^verbatim>\<open>undefined\<close> when there is
  none, and a \<^verbatim>\<open>TypeError\<close> on \<^verbatim>\<open>undefined\<close> and \<^verbatim>\<open>null\<close>.
\<close>

fun first_element :: "jsval \<Rightarrow> js_error + jsval" where
  "first_element Undefined = Inl TypeError"
| "first_element Null = Inl TypeError"
| "first_element (Str s) = Inr (case s of [] \<Rightarrow> Undefined | c # _ \<Rightarrow> Str [c])"
| "first_element (Arr xs) = Inr (case xs of [] \<Rightarrow> Undefined | x # _ \<Rightarrow> x)"
| "first_element (Obj props) =
     Inr (case map_of props ''0'' of None \<Rightarrow> Undefined | Some v \<Rightarrow> v)"

text \<open>
  \<^verbatim>\<open>!resolver || resolver.length === 0\<close>. The falsy values of the type are
  \<^verbatim>\<open>undefined\<close>, \<^verbatim>\<open>null\<close> and the empty string. The length of an array or a string is
  its number of elements; the property \<^verbatim>\<open>length\<close> of an object, when it has one, is a
  value of the type above, which is never strictly equal to the number \<^verbatim>\<open>0\<close>.
\<close>

fun no_resolver :: "jsval \<Rightarrow> bool" where
  "no_resolver Undefined = True"
| "no_resolver Null = True"
| "no_resolver (Str s) = (s = [])"
| "no_resolver (Arr xs) = (length xs = 0)"
| "no_resolver (Obj props) = False"

section \<open>The environment of a call\<close>

text \<open>
  A response of the service, as the source reads it: \<^verbatim>\<open>res.ok\<close>, and the promise
  \<^verbatim>\<open>res.text()\<close>, which is fulfilled with the body or rejected. \<^verbatim>\<open>fetch(url)\<close> is a
  promise fulfilled with a response or rejected with an error (the transport failed).
\<close>

datatype response = Response (ok: bool) (body: "js_error + string")

datatype fetch_result = Resolves response | Rejects js_error

text \<open>
  What the module imports and the built-in functions it calls are parameters of the
  model, so that every theorem holds whatever they compute:
  \<^item> \<^verbatim>\<open>String.prototype.trim\<close> and \<^verbatim>\<open>String.prototype.toLowerCase\<close>;
  \<^item> \<^verbatim>\<open>encodeURIComponent\<close>, which returns the encoded string or throws a
    \<^verbatim>\<open>URIError\<close>;
  \<^item> \<^verbatim>\<open>parseFloat\<close>, applied to a value of type \<^verbatim>\<open>any\<close> (it converts its argument to
    a string first);
  \<^item> \<^verbatim>\<open>fetch\<close> of cross-fetch: the outcome of the GET request to a URL;
  \<^item> \<^verbatim>\<open>parseString\<close> of xml2js: for a text, the error or the parsed document that it
    hands to its callback. The callback is run once, synchronously: with
    \<^verbatim>\<open>(err, undefined)\<close> when the parser meets an error before the root element is
    closed, and with \<^verbatim>\<open>(null, root)\<close> as soon as the root element is closed. An error
    in what follows the root element comes too late for the callback: such a text is
    not well-formed, and its outcome here is the document. What the callback throws is
    thrown by \<^verbatim>\<open>parseString\<close>.
\<close>

record environment =
  trim :: "string \<Rightarrow> string"
  toLowerCase :: "string \<Rightarrow> string"
  encodeURIComponent :: "string \<Rightarrow> js_error + string"
  parseFloat :: "jsval \<Rightarrow> number"
  fetch :: "string \<Rightarrow> fetch_result"
  parseString :: "string \<Rightarrow> js_error + jsval"

text \<open>
  The state of the process: the module variable \<^verbatim>\<open>BASE_URL\<close>, and the URLs that
  \<^verbatim>\<open>fetch\<close> has been called with so far, oldest first (the network accesses).
\<close>

record world =
  BASE_URL :: string
  requests :: "string list"

text \<open>
  \<^verbatim>\<open>let BASE_URL = "https://cdsweb.u-strasbg.fr/cgi-bin/nph-sesame/";\<close>
\<close>

definition initial_world :: world where
  "initial_world =
     \<lparr>BASE_URL = ''https://cdsweb.u-strasbg.fr/cgi-bin/nph-sesame/'', requests = []\<rparr>"

text \<open>
  The promise that \<^verbatim>\<open>targetPosition\<close> returns, once settled: fulfilled with a position
  or \<^verbatim>\<open>null\<close> (\<open>None\<close>), or rejected with an error.
\<close>

datatype settlement = Fulfilled "IPosition option" | Rejected js_error

section \<open>The module\<close>

text \<open>\<^verbatim>\<open>const SUPPORTED_RESOLVERS = ["ned", "simbad", "vizier"];\<close>\<close>

definition SUPPORTED_RESOLVERS :: "string list" where
  "SUPPORTED_RESOLVERS = [''ned'', ''simbad'', ''vizier'']"

text \<open>\<^verbatim>\<open>Array.prototype.join\<close> on an array of strings.\<close>

fun array_join :: "string \<Rightarrow> string list \<Rightarrow> string" where
  "array_join sep [] = []"
| "array_join sep [x] = x"
| "array_join sep (x # y # ys) = x @ sep @ array_join sep (y # ys)"

text \<open>
  Line 59: \<^verbatim>\<open>(targetName && targetName.trim()) || ""\<close>. The target name is \<open>None\<close> when
  the caller passes \<^verbatim>\<open>null\<close> or \<^verbatim>\<open>undefined\<close>; an empty string is falsy, so it is not
  trimmed.
\<close>

definition trimmedTargetName :: "environment \<Rightarrow> string option \<Rightarrow> string" where
  "trimmedTargetName env targetName =
     (case targetName of
        None \<Rightarrow> []
      | Some name \<Rightarrow> if name = [] then [] else trim env name)"

text \<open>
  Lines 67 to 69:
  \<^verbatim>\<open>resolvers.filter(resolver => SUPPORTED_RESOLVERS.indexOf(resolver.toLowerCase()) === -1)\<close>
\<close>

definition unsupportedResolvers :: "environment \<Rightarrow> string list \<Rightarrow> string list" where
  "unsupportedResolvers env resolvers =
     filter (\<lambda>resolver. toLowerCase env resolver \<notin> set SUPPORTED_RESOLVERS) resolvers"

text \<open>Lines 102 to 113: the \<^verbatim>\<open>switch\<close> that gives the code of a resolver.\<close>

definition resolver_letter :: "string \<Rightarrow> string" where
  "resolver_letter resolver =
     (if resolver = ''simbad'' then ''S''
      else if resolver = ''ned'' then ''N''
      else if resolver = ''vizier'' then ''V''
      else [])"

text \<open>
  Lines 58 to 117, the synchronous part of the executor up to the URL: the error the
  promise is rejected with, or the URL that \<^verbatim>\<open>fetch\<close> is called with. The size of
  \<^verbatim>\<open>new Set(lowerCaseResolvers)\<close> is the number of distinct strings. An error thrown in
  the executor (by \<^verbatim>\<open>encodeURIComponent\<close>) rejects the promise. At line 98 the target
  name is a string: the call has returned at line 63 otherwise.
\<close>

definition request_url ::
  "environment \<Rightarrow> string option \<Rightarrow> string list \<Rightarrow> string \<Rightarrow> js_error + string" where
  "request_url env targetName resolvers base_url =
     (if trimmedTargetName env targetName = [] then
        Inl (Error ''The target name is missing.'')
      else if length (unsupportedResolvers env resolvers) > 0 then
        Inl (Error (''The following resolver''
          @ (if length (unsupportedResolvers env resolvers) \<noteq> 1 then ''s are'' else '' is'')
          @ '' not supported: ''
          @ array_join '', '' (unsupportedResolvers env resolvers)
          @ ''. The available resolvers are Simbad, NED and VizieR.''))
      else
        let lowerCaseResolvers = map (toLowerCase env) resolvers in
        if length lowerCaseResolvers = 0 then
          Inl (Error ''At least one resolver must be given.'')
        else if length (remdups lowerCaseResolvers) \<noteq> length lowerCaseResolvers then
          Inl (Error ''A resolver may be used only once in the array of resolvers.'')
        else
          case encodeURIComponent env (case targetName of Some name \<Rightarrow> name | None \<Rightarrow> []) of
            Inl thrown \<Rightarrow> Inl thrown
          | Inr encodedTargetName \<Rightarrow>
              let resolverCode = array_join [] (map resolver_letter lowerCaseResolvers) in
              Inr (base_url @ ''/-ox/'' @ resolverCode @ ''?'' @ encodedTargetName))"

text \<open>Line 147: \<^verbatim>\<open>root.Sesame.Target[0].Resolver\<close>, or the \<^verbatim>\<open>TypeError\<close> it throws.\<close>

definition resolver_of :: "jsval \<Rightarrow> js_error + jsval" where
  "resolver_of parsed =
     (case get_property parsed ''Sesame'' of
        Inl thrown \<Rightarrow> Inl thrown
      | Inr sesame \<Rightarrow>
          (case get_property sesame ''Target'' of
             Inl thrown \<Rightarrow> Inl thrown
           | Inr target \<Rightarrow>
               (case first_element target of
                  Inl thrown \<Rightarrow> Inl thrown
                | Inr target0 \<Rightarrow> get_property target0 ''Resolver'')))"

text \<open>
  Lines 146 to 166, the callback of \<^verbatim>\<open>parseString\<close>: the value it calls \<^verbatim>\<open>resolve\<close>
  with, or the error it throws (\<open>parsed\<close> is its argument \<^verbatim>\<open>root\<close>). It does not read
  \<^verbatim>\<open>err\<close>.
\<close>

definition extract_target ::
  "environment \<Rightarrow> js_error option \<Rightarrow> jsval \<Rightarrow> js_error + IPosition option" where
  "extract_target env err parsed =
     (case resolver_of parsed of
        Inl thrown \<Rightarrow> Inl thrown
      | Inr resolver \<Rightarrow>
          if no_resolver resolver then Inr None
          else
            (case first_element resolver of
               Inl thrown \<Rightarrow> Inl thrown
             | Inr resolver0 \<Rightarrow>
                 (case get_property resolver0 ''jradeg'' of
                    Inl thrown \<Rightarrow> Inl thrown
                  | Inr jradeg \<Rightarrow>
                      let ra = parseFloat env jradeg in
                      (case get_property resolver0 ''jdedeg'' of
                         Inl thrown \<Rightarrow> Inl thrown
                       | Inr jdedeg \<Rightarrow>
                           let dec = parseFloat env jdedeg in
                           if \<not> isNaN ra \<and> \<not> isNaN dec then
                             Inr (Some \<lparr>rightAscension = ra, declination = dec,
                                        equinox = Num 2000\<rparr>)
                           else Inr None))))"

text \<open>
  Lines 121 to 133, \<^verbatim>\<open>parseText\<close>: the promise is fulfilled with the body and
  \<^verbatim>\<open>res.ok\<close>, or rejected with what \<^verbatim>\<open>res.text()\<close> is rejected with.
\<close>

definition parseText :: "response \<Rightarrow> js_error + string \<times> bool" where
  "parseText res = (case body res of Inl err \<Rightarrow> Inl err | Inr txt \<Rightarrow> Inr (txt, ok res))"

text \<open>
  Lines 136 to 168: \<^verbatim>\<open>fetch(url).then(parseText).then(res => ...).catch(reject)\<close>, as
  a function of the outcome of the request. A rejection of \<^verbatim>\<open>fetch\<close> or of
  \<^verbatim>\<open>parseText\<close>, and an error thrown in the second handler, reach \<^verbatim>\<open>reject\<close>.
\<close>

definition settle :: "environment \<Rightarrow> fetch_result \<Rightarrow> settlement" where
  "settle env outcome =
     (case outcome of
        Rejects err \<Rightarrow> Rejected err
      | Resolves response \<Rightarrow>
          (case parseText response of
             Inl err \<Rightarrow> Rejected err
           | Inr (txt, res_ok) \<Rightarrow>
               if \<not> res_ok then Rejected (Error txt)
               else
                 (case (case parseString env txt of
                          Inl err \<Rightarrow> extract_target env (Some err) Undefined
                        | Inr parsed \<Rightarrow> extract_target env None parsed) of
                    Inl thrown \<Rightarrow> Rejected thrown
                  | Inr found \<Rightarrow> Fulfilled found)))"

text \<open>
  \<^verbatim>\<open>targetPosition(targetName, resolvers = ["Simbad", "NED", "VizieR"])\<close>: the settlement
  of the promise it returns, and the state it leaves. The list of resolvers is \<open>None\<close>
  when the caller leaves it out, and \<open>selected\<close> is the default parameter. The URL is
  built from \<^verbatim>\<open>BASE_URL\<close> as it is when the function is called, and \<^verbatim>\<open>fetch\<close> is
  called once, with this URL, before the function returns; a call rejected before that
  makes no network access. The handlers that settle the promise later read neither
  \<^verbatim>\<open>BASE_URL\<close> nor anything else of the state.
\<close>

definition selected :: "string list option \<Rightarrow> string list" where
  "selected resolvers =
     (case resolvers of None \<Rightarrow> [''Simbad'', ''NED'', ''VizieR''] | Some given \<Rightarrow> given)"

definition targetPosition ::
  "environment \<Rightarrow> string option \<Rightarrow> string list option \<Rightarrow> world \<Rightarrow> settlement \<times> world" where
  "targetPosition env targetName resolvers w =
     (case request_url env targetName (selected resolvers) (BASE_URL w) of
        Inl err \<Rightarrow> (Rejected err, w)
      | Inr url \<Rightarrow> (settle env (fetch env url), w\<lparr>requests := requests w @ [url]\<rparr>))"

text \<open>\<^verbatim>\<open>export function setMirror(url: string) { BASE_URL = url; }\<close>\<close>

definition setMirror :: "string \<Rightarrow> world \<Rightarrow> world" where
  "setMirror url w = w\<lparr>BASE_URL := url\<rparr>"

section \<open>A sample environment\<close>

text \<open>
  The theorems below hold for every environment. To run the module on concrete calls,
  this section gives one: the built-in functions on strings of characters below 256
  (read as the code units of the same value), and, as the tests of the repository do
  with \<^verbatim>\<open>mockResolvedValue\<close>, a \<^verbatim>\<open>fetch\<close> with a fixed outcome; the parser is fixed
  too, to the document that xml2js builds for the body.
\<close>

definition js_whitespace :: "char \<Rightarrow> bool" where
  "js_whitespace c =
     (c \<in> set [CHR 0x09, CHR 0x0A, CHR 0x0B, CHR 0x0C, CHR 0x0D, CHR 0x20, CHR 0xA0])"

definition js_trim :: "string \<Rightarrow> string" where
  "js_trim s = rev (dropWhile js_whitespace (rev (dropWhile js_whitespace s)))"

definition js_lower :: "char \<Rightarrow> char" where
  "js_lower c =
     (case map_of (zip ''ABCDEFGHIJKLMNOPQRSTUVWXYZ'' ''abcdefghijklmnopqrstuvwxyz'') c of
        Some l \<Rightarrow> l
      | None \<Rightarrow>
          let n = (of_char c :: nat) in
          if 192 \<le> n \<and> n \<le> 222 \<and> n \<noteq> 215 then char_of (n + 32) else c)"

definition js_toLowerCase :: "string \<Rightarrow> string" where
  "js_toLowerCase s = map js_lower s"

definition percent :: "nat \<Rightarrow> string" where
  "percent n = [CHR ''%'', ''0123456789ABCDEF'' ! (n div 16), ''0123456789ABCDEF'' ! (n mod 16)]"

definition js_encode_char :: "char \<Rightarrow> string" where
  "js_encode_char c =
     (if c \<in> set ''ABCDEFGHIJKLMNOPQRSTUVWXYZabcdefghijklmnopqrstuvwxyz0123456789-_.!~*()''
         \<or> c = CHR 0x27
      then [c]
      else
        let n = (of_char c :: nat) in
        if n < 128 then percent n else percent (192 + n div 64) @ percent (128 + n mod 64))"

definition js_encodeURIComponent :: "string \<Rightarrow> js_error + string" where
  "js_encodeURIComponent s = Inr (concat (map js_encode_char s))"

text \<open>
  \<^verbatim>\<open>ToString\<close> of a value, and \<^verbatim>\<open>parseFloat\<close>: the longest prefix, after white space,
  that is a decimal literal, read exactly (neither rounded to a binary64 number nor
  overflowing to an infinity).
\<close>

fun js_toString :: "jsval \<Rightarrow> string" where
  "js_toString Undefined = ''undefined''"
| "js_toString Null = ''null''"
| "js_toString (Str s) = s"
| "js_toString (Arr xs) =
     array_join '','' (map (\<lambda>x. if x = Undefined \<or> x = Null then [] else js_toString x) xs)"
| "js_toString (Obj props) = ''[object Object]''"

definition is_digit :: "char \<Rightarrow> bool" where
  "is_digit c = (c \<in> set ''0123456789'')"

definition digits_value :: "string \<Rightarrow> nat" where
  "digits_value ds = foldl (\<lambda>n c. 10 * n + (of_char c - 48)) 0 ds"

definition signed :: "bool \<Rightarrow> real \<Rightarrow> number" where
  "signed negative x = Num (if negative then - x else x)"

definition js_parseFloat_string :: "string \<Rightarrow> number" where
  "js_parseFloat_string s =
     (let s1 = dropWhile js_whitespace s;
          negative = (take 1 s1 = ''-'');
          s2 = (if take 1 s1 = ''-'' \<or> take 1 s1 = ''+'' then drop 1 s1 else s1)
      in
        if take 8 s2 = ''Infinity'' then (if negative then NegInfinity else Infinity)
        else
          let whole = takeWhile is_digit s2;
              r1 = dropWhile is_digit s2;
              fraction = (if take 1 r1 = ''.'' then takeWhile is_digit (drop 1 r1) else []);
              r2 = (if take 1 r1 = ''.'' then dropWhile is_digit (drop 1 r1) else r1);
              r3 = (if take 1 r2 = ''e'' \<or> take 1 r2 = ''E'' then drop 1 r2 else []);
              down = (take 1 r3 = ''-'');
              r4 = (if take 1 r3 = ''-'' \<or> take 1 r3 = ''+'' then drop 1 r3 else r3);
              exponent = digits_value (takeWhile is_digit r4);
              mantissa = real (digits_value (whole @ fraction)) / 10 ^ length fraction
          in
            if whole = [] \<and> fraction = [] then NaN
            else if down then signed negative (mantissa / 10 ^ exponent)
            else signed negative (mantissa * 10 ^ exponent))"

definition js_parseFloat :: "jsval \<Rightarrow> number" where
  "js_parseFloat v = js_parseFloat_string (js_toString v)"

definition mock :: "fetch_result \<Rightarrow> js_error + jsval \<Rightarrow> environment" where
  "mock outcome document =
     \<lparr>trim = js_trim, toLowerCase = js_toLowerCase,
      encodeURIComponent = js_encodeURIComponent, parseFloat = js_parseFloat,
      fetch = (\<lambda>url. outcome), parseString = (\<lambda>txt. document)\<rparr>"

text \<open>
  The replies of the tests of the repository, with the attributes and the children the
  module does not read left out. \<open>target_document ra dec\<close> is what xml2js builds for
  \<open>target_xml ra dec\<close>: an object for an element with children, each child name bound
  to the array of the children of this name, and a string for an element with text only.
\<close>

definition target_xml :: "string \<Rightarrow> string \<Rightarrow> string" where
  "target_xml ra dec =
     ''<Sesame><Target><name>HIP123</name><Resolver><jradeg>'' @ ra
       @ ''</jradeg><jdedeg>'' @ dec @ ''</jdedeg></Resolver></Target></Sesame>''"

definition target_document :: "string \<Rightarrow> string \<Rightarrow> jsval" where
  "target_document ra dec =
     Obj [(''Sesame'', Obj [(''Target'', Arr [Obj
       [(''name'', Arr [Str ''HIP123'']),
        (''Resolver'', Arr [Obj [(''jradeg'', Arr [Str ra]), (''jdedeg'', Arr [Str dec])]])]])])]"

definition NO_TARGET_XML :: string where
  "NO_TARGET_XML =
     ''<Sesame><Target><name>HIP123456</name><INFO>*** Nothing found ***</INFO></Target></Sesame>''"

definition no_target_document :: jsval where
  "no_target_document =
     Obj [(''Sesame'', Obj [(''Target'', Arr [Obj
       [(''name'', Arr [Str ''HIP123456'']),
        (''INFO'', Arr [Str ''*** Nothing found ***''])]])])]"

text \<open>The state the tests start from: \<^verbatim>\<open>setMirror(MOCK_MIRROR_URL)\<close>.\<close>

definition mock_world :: world where
  "mock_world = setMirror ''http://mock.saao.ac.za/'' initial_world"

text \<open>
  Two more replies. The first has two \<^verbatim>\<open>Resolver\<close> entries, of which only the second
  has coordinates; the second is a \<^verbatim>\<open>Sesame\<close> element with nothing in it, for which
  xml2js builds the empty string.
\<close>

definition two_resolvers_xml :: string where
  "two_resolvers_xml =
     ''<Sesame><Target><Resolver><INFO>Zero (0) answers</INFO></Resolver>''
       @ ''<Resolver><jradeg>10.5</jradeg><jdedeg>-3</jdedeg></Resolver></Target></Sesame>''"

definition two_resolvers_document :: jsval where
  "two_resolvers_document =
     Obj [(''Sesame'', Obj [(''Target'', Arr [Obj [(''Resolver'', Arr
       [Obj [(''INFO'', Arr [Str ''Zero (0) answers''])],
        Obj [(''jradeg'', Arr [Str ''10.5'']), (''jdedeg'', Arr [Str ''-3''])]])]])])]"


definition empty_sesame_document :: jsval where
  "empty_sesame_document = Obj [(''Sesame'', Str [])]"

text \<open>An environment for the calls that are rejected before any request is made.\<close>

definition offline :: environment where
  "offline = mock (Rejects (Error ''The network is down.'')) (Inl (Error ''No document.''))"

text \<open>
  A target name with a lone surrogate. The characters of the sample environment are the
  code units below 256, so the string of the one code unit U+D800 cannot be written
  with them: \<open>lone_surrogate\<close> stands for it, written as its escape, and
  \<open>surrogate_env\<close> is the sample environment in which \<^verbatim>\<open>encodeURIComponent\<close> does at
  this name what it does at that string, which is to throw a \<^verbatim>\<open>URIError\<close>. White
  space is not a surrogate: trimming leaves the name as it is.
\<close>

definition lone_surrogate :: string where
  "lone_surrogate = CHR 0x5C # ''uD800''"

definition surrogate_env :: environment where
  "surrogate_env =
     offline\<lparr>encodeURIComponent :=
       (\<lambda>s. if s = lone_surrogate then Inl URIError else js_encodeURIComponent s)\<rparr>"

text \<open>
  A reply of the tests followed by text. It is not well-formed, and xml2js has handed
  the document to the callback, at the end of the root element, before it meets the
  text.
\<close>

definition trailing_text_xml :: string where
  "trailing_text_xml = target_xml ''10.5'' ''-3'' @ ''garbage''"

section \<open>Facts about the module\<close>

lemmas module_defs =
  targetPosition_def request_url_def selected_def trimmedTargetName_def
  unsupportedResolvers_def SUPPORTED_RESOLVERS_def resolver_letter_def parseText_def
  settle_def extract_target_def resolver_of_def isNaN_def setMirror_def

lemmas sample_defs =
  mock_def offline_def mock_world_def initial_world_def js_trim_def js_whitespace_def
  js_toLowerCase_def js_lower_def js_encodeURIComponent_def js_encode_char_def percent_def
  js_parseFloat_def js_parseFloat_string_def is_digit_def digits_value_def signed_def
  target_document_def no_target_document_def two_resolvers_document_def
  empty_sesame_document_def lone_surrogate_def surrogate_env_def


lemma trimmed_name:
  "trimmedTargetName env (Some name) \<noteq> [] \<longleftrightarrow> name \<noteq> [] \<and> trim env name \<noteq> []"
  by (simp add: trimmedTargetName_def)

lemma unsupported_empty:
  "unsupportedResolvers env rs = [] \<longleftrightarrow>
     (\<forall>r \<in> set rs. toLowerCase env r \<in> {''ned'', ''simbad'', ''vizier''})"
  by (auto simp: unsupportedResolvers_def SUPPORTED_RESOLVERS_def filter_empty_conv)

lemma unsupported_filter:
  "unsupportedResolvers env rs =
     filter (\<lambda>r. toLowerCase env r \<notin> {''ned'', ''simbad'', ''vizier''}) rs"
  by (simp add: unsupportedResolvers_def SUPPORTED_RESOLVERS_def)



text \<open>The base URL is the prefix of the URL, and nothing else of the URL depends on it.\<close>

lemma request_url_base:
  assumes "request_url env targetName rs base = Inr url"
  shows "\<exists>rest. url = base @ rest
           \<and> (\<forall>other. request_url env targetName rs other = Inr (other @ rest))"
  using assms
  by (auto simp: request_url_def Let_def split: if_splits sum.splits)

lemma targetPosition_requests:
  assumes "request_url env targetName (selected rs) (BASE_URL w) = Inr url"
  shows "targetPosition env targetName rs w =
           (settle env (fetch env url), w\<lparr>requests := requests w @ [url]\<rparr>)"
  using assms by (simp add: targetPosition_def)


lemma settle_success:
  assumes "outcome = Resolves (Response True (Inr txt))" and "parseString env txt = Inr parsed"
  shows "settle env outcome =
           (case extract_target env None parsed of
              Inl thrown \<Rightarrow> Rejected thrown | Inr found \<Rightarrow> Fulfilled found)"
  using assms by (simp add: settle_def parseText_def)

lemma settled_by_callback:
  assumes "request_url env targetName (selected rs) (BASE_URL w) = Inr url"
    and "fetch env url = Resolves (Response True (Inr txt))"
    and "parseString env txt = Inr parsed"
  shows "fst (targetPosition env targetName rs w) =
           (case extract_target env None parsed of
              Inl thrown \<Rightarrow> Rejected thrown | Inr found \<Rightarrow> Fulfilled found)"
proof -
  have "fst (targetPosition env targetName rs w) = settle env (fetch env url)"
    using assms(1) by (simp add: targetPosition_requests)
  also have "\<dots> = (case extract_target env None parsed of
                      Inl thrown \<Rightarrow> Rejected thrown | Inr found \<Rightarrow> Fulfilled found)"
    using assms(2,3) by (rule settle_success)
  finally show ?thesis .
qed


lemma extract_entry:
  assumes "resolver_of parsed = Inr (Arr (entry # others))"
    and "get_property entry ''jradeg'' = Inr jradeg"
    and "get_property entry ''jdedeg'' = Inr jdedeg"
  shows "extract_target env err parsed =
           Inr (if \<not> isNaN (parseFloat env jradeg) \<and> \<not> isNaN (parseFloat env jdedeg)
                then Some \<lparr>rightAscension = parseFloat env jradeg,
                          declination = parseFloat env jdedeg, equinox = Num 2000\<rparr>
                else None)"
  using assms by (simp add: extract_target_def Let_def)


text \<open>The requests of the sample calls.\<close>

lemma mock_world_fields:
  "BASE_URL mock_world = ''http://mock.saao.ac.za/''" "requests mock_world = []"
  by (simp_all add: mock_world_def setMirror_def initial_world_def)

lemma sample_request:
  "request_url (mock outcome document) (Some ''A'') (selected None) (BASE_URL mock_world) =
     Inr ''http://mock.saao.ac.za//-ox/SNV?A''"
  by (simp add: module_defs sample_defs)

lemma sample_lower_case:
  "map (toLowerCase (mock outcome document)) [''Simbad'', ''NED'', ''VizieR''] =
     [''simbad'', ''ned'', ''vizier'']"
  "map (toLowerCase (mock outcome document)) [''sImbAD'', ''VIZIEr'', ''ned''] =
     [''simbad'', ''vizier'', ''ned'']"
  "map (toLowerCase (mock outcome document)) [''Simbad'', ''NED'', ''simbad'', ''VizieR''] =
     [''simbad'', ''ned'', ''simbad'', ''vizier'']"
  by (simp_all add: sample_defs)

lemma sample_numbers:
  "parseFloat (mock outcome document) (Arr [Str ''10.5'']) = Num 10.5"
  "parseFloat (mock outcome document) (Arr [Str ''-3'']) = Num (- 3)"
  by (simp_all add: sample_defs)

section \<open>The claims\<close>

text \<open>
  C1 (amended). For every call that issues its request and gets a response with a
  success status whose body parses to a document in which
  \<^verbatim>\<open>root.Sesame.Target[0].Resolver\<close> is a non-empty array, and in which the
  \<^verbatim>\<open>jradeg\<close> and \<^verbatim>\<open>jdedeg\<close> of the first entry of this array both parse as numbers, the
  promise is fulfilled with a position whose right ascension and declination are these
  two parsed values and whose equinox is 2000. The entries after the first are not
  read.
\<close>

theorem C1_position_of_first_entry:
  assumes "request_url env targetName (selected rs) (BASE_URL w) = Inr url"
    and "fetch env url = Resolves (Response True (Inr txt))"
    and "parseString env txt = Inr parsed"
    and "resolver_of parsed = Inr (Arr (entry # others))"
    and "get_property entry ''jradeg'' = Inr jradeg"
    and "get_property entry ''jdedeg'' = Inr jdedeg"
    and "\<not> isNaN (parseFloat env jradeg)"
    and "\<not> isNaN (parseFloat env jdedeg)"
  shows "fst (targetPosition env targetName rs w) =
           Fulfilled (Some \<lparr>rightAscension = parseFloat env jradeg,
                             declination = parseFloat env jdedeg, equinox = Num 2000\<rparr>)"
  using assms(7,8)
  by (simp add: settled_by_callback [OF assms(1,2,3)] extract_entry [OF assms(4,5,6)])

text \<open>
  The call \<^verbatim>\<open>targetPosition("A")\<close> of the tests, answered with the coordinates 10.5
  and -3.
\<close>

theorem C1_witness:
  "fst (targetPosition
          (mock (Resolves (Response True (Inr (target_xml ''10.5'' ''-3''))))
                (Inr (target_document ''10.5'' ''-3'')))
          (Some ''A'') None mock_world) =
     Fulfilled (Some \<lparr>rightAscension = Num 10.5, declination = Num (- 3),
                       equinox = Num 2000\<rparr>)"
proof -
  let ?env = "mock (Resolves (Response True (Inr (target_xml ''10.5'' ''-3''))))
                   (Inr (target_document ''10.5'' ''-3''))"
  let ?entry = "Obj [(''jradeg'', Arr [Str ''10.5'']), (''jdedeg'', Arr [Str ''-3''])]"
  have reply: "fetch ?env ''http://mock.saao.ac.za//-ox/SNV?A'' =
                 Resolves (Response True (Inr (target_xml ''10.5'' ''-3'')))"
    by (simp add: mock_def)
  have doc: "parseString ?env (target_xml ''10.5'' ''-3'') = Inr (target_document ''10.5'' ''-3'')"
    by (simp add: mock_def)
  have entries: "resolver_of (target_document ''10.5'' ''-3'') = Inr (Arr (?entry # []))"
    by (simp add: resolver_of_def target_document_def)
  have ra: "get_property ?entry ''jradeg'' = Inr (Arr [Str ''10.5''])"
    and dec: "get_property ?entry ''jdedeg'' = Inr (Arr [Str ''-3''])"
    by simp_all
  have "\<not> isNaN (parseFloat ?env (Arr [Str ''10.5'']))"
    and "\<not> isNaN (parseFloat ?env (Arr [Str ''-3'']))"
    by (simp_all add: sample_numbers isNaN_def)
  from C1_position_of_first_entry [OF sample_request reply doc entries ra dec this]
  show ?thesis by (simp only: sample_numbers)
qed

text \<open>
  The claim as it is written fails on a reply with two \<^verbatim>\<open>Resolver\<close> entries of which
  the second has coordinates that parse and the first has none: the promise is
  fulfilled with \<^verbatim>\<open>null\<close>.
\<close>

theorem C1_counterexample:
  "resolver_of two_resolvers_document =
     Inr (Arr [Obj [(''INFO'', Arr [Str ''Zero (0) answers''])],
               Obj [(''jradeg'', Arr [Str ''10.5'']), (''jdedeg'', Arr [Str ''-3''])]])
   \<and> js_parseFloat (Arr [Str ''10.5'']) = Num 10.5
   \<and> js_parseFloat (Arr [Str ''-3'']) = Num (- 3)
   \<and> targetPosition
        (mock (Resolves (Response True (Inr two_resolvers_xml))) (Inr two_resolvers_document))
        (Some ''A'') None mock_world =
      (Fulfilled None,
       \<lparr>BASE_URL = ''http://mock.saao.ac.za/'',
        requests = [''http://mock.saao.ac.za//-ox/SNV?A'']\<rparr>)"
  by (simp add: module_defs sample_defs)







text \<open>
  C4. For every call that issues its request and gets a response with a status that is
  not a success, the promise is rejected with an \<^verbatim>\<open>Error\<close> whose message is the whole
  body of the response.
\<close>

theorem C4_service_error:
  assumes "request_url env targetName (selected rs) (BASE_URL w) = Inr url"
    and "fetch env url = Resolves (Response False (Inr txt))"
  shows "fst (targetPosition env targetName rs w) = Rejected (Error txt)"
  using assms by (simp add: targetPosition_requests settle_def parseText_def)

text \<open>The test "Sesame is not happy".\<close>

theorem C4_witness:
  "fst (targetPosition
          (mock (Resolves (Response False (Inr ''Sesame is not happy.''))) (Inl (Error [])))
          (Some ''A'') (Some [''Simbad'']) mock_world) =
     Rejected (Error ''Sesame is not happy.'')"
proof -
  let ?env = "mock (Resolves (Response False (Inr ''Sesame is not happy.''))) (Inl (Error []))"
  have req: "request_url ?env (Some ''A'') (selected (Some [''Simbad''])) (BASE_URL mock_world) =
               Inr ''http://mock.saao.ac.za//-ox/S?A''"
    by (simp add: module_defs sample_defs)
  have reply: "fetch ?env ''http://mock.saao.ac.za//-ox/S?A'' =
                 Resolves (Response False (Inr ''Sesame is not happy.''))"
    by (simp add: mock_def)
  from C4_service_error [OF req reply] show ?thesis .
qed

text \<open>
  C5. For every target name that is absent (\<^verbatim>\<open>null\<close> or \<^verbatim>\<open>undefined\<close>), empty, or
  empty once trimmed, and whatever the resolvers, the promise is rejected with the
  message "The target name is missing.", and the state is the one before the call: no
  request has been made.
\<close>

theorem C5_missing_target_name:
  assumes "targetName = None \<or> targetName = Some []
           \<or> (\<exists>name. targetName = Some name \<and> trim env name = [])"
  shows "targetPosition env targetName rs w =
           (Rejected (Error ''The target name is missing.''), w)"
proof -
  have "trimmedTargetName env targetName = []"
    using assms by (auto simp: trimmedTargetName_def)
  then show ?thesis
    by (simp add: targetPosition_def request_url_def)
qed

text \<open>
  The name of white space of the tests, a space, a tab, two spaces, two line feeds and
  a space, here with a resolver that is not supported.
\<close>

theorem C5_witness:
  "targetPosition offline
     (Some [CHR '' '', CHR 0x09, CHR '' '', CHR '' '', CHR 0x0A, CHR 0x0A, CHR '' ''])
     (Some [''Xft56'']) mock_world =
   (Rejected (Error ''The target name is missing.''), mock_world)"
proof -
  let ?name = "[CHR '' '', CHR 0x09, CHR '' '', CHR '' '', CHR 0x0A, CHR 0x0A, CHR '' '']"
  have "trim offline ?name = []"
    by (simp add: sample_defs)
  then have "Some ?name = None \<or> Some ?name = Some []
      \<or> (\<exists>name. Some ?name = Some name \<and> trim offline name = [])"
    by simp
  from C5_missing_target_name [OF this] show ?thesis .
qed

text \<open>
  C6 (amended). For every target name that is not empty after trimming and every list
  of resolvers with entries whose lower case is none of ned, simbad and vizier, the
  promise is rejected, with no request made, with the message that names these
  entries, as they were given and in their order, joined with a comma and a space:
  "The following resolver is not supported: ..." for one entry and "The following
  resolvers are not supported: ..." for more.
\<close>

theorem C6_unsupported_resolvers:
  assumes "name \<noteq> []" and "trim env name \<noteq> []"
    and "unsupported = filter (\<lambda>r. toLowerCase env r \<notin> {''ned'', ''simbad'', ''vizier''}) rs"
    and "unsupported \<noteq> []"
  shows "targetPosition env (Some name) (Some rs) w =
           (Rejected (Error (''The following resolver''
              @ (if length unsupported = 1 then '' is'' else ''s are'')
              @ '' not supported: '' @ array_join '', '' unsupported
              @ ''. The available resolvers are Simbad, NED and VizieR.'')), w)"
proof -
  have name: "trimmedTargetName env (Some name) \<noteq> []"
    using assms(1,2) by (simp add: trimmed_name)
  have unsupported: "unsupportedResolvers env rs = unsupported"
    using assms(3) by (simp add: unsupported_filter)
  have "request_url env (Some name) rs (BASE_URL w) =
          Inl (Error (''The following resolver''
              @ (if length unsupported = 1 then '' is'' else ''s are'')
              @ '' not supported: '' @ array_join '', '' unsupported
              @ ''. The available resolvers are Simbad, NED and VizieR.''))"
    unfolding request_url_def unsupported using name assms(4) by simp
  then show ?thesis
    by (simp add: targetPosition_def selected_def)
qed

text \<open>The two tests with resolvers that are not supported.\<close>

theorem C6_witness:
  "targetPosition offline (Some ''A'') (Some [''Simbad'', ''Xft56'', ''NED'', ''A56tyu''])
     mock_world =
   (Rejected (Error ''The following resolvers are not supported: Xft56, A56tyu. The available resolvers are Simbad, NED and VizieR.''),
    mock_world)
   \<and> targetPosition offline (Some ''A'') (Some [''Simbad'', ''Xft56'', ''NED'']) mock_world =
   (Rejected (Error ''The following resolver is not supported: Xft56. The available resolvers are Simbad, NED and VizieR.''),
    mock_world)"
proof -
  have name: "''A'' \<noteq> []" "trim offline ''A'' \<noteq> []"
    by (simp_all add: sample_defs)
  have two: "[''Xft56'', ''A56tyu''] =
      filter (\<lambda>r. toLowerCase offline r \<notin> {''ned'', ''simbad'', ''vizier''})
        [''Simbad'', ''Xft56'', ''NED'', ''A56tyu'']"
    by (simp add: sample_defs)
  have one: "[''Xft56''] =
      filter (\<lambda>r. toLowerCase offline r \<notin> {''ned'', ''simbad'', ''vizier''})
        [''Simbad'', ''Xft56'', ''NED'']"
    by (simp add: sample_defs)
  from C6_unsupported_resolvers [OF name two, of mock_world]
       C6_unsupported_resolvers [OF name one, of mock_world]
  show ?thesis by simp
qed

text \<open>
  The claim as it is written fails when the target name is empty: the first check
  rejects the call, and the message does not name the resolver that is not supported.
\<close>

theorem C6_counterexample:
  "unsupportedResolvers offline [''Xft56''] = [''Xft56'']
   \<and> targetPosition offline (Some []) (Some [''Xft56'']) mock_world =
     (Rejected (Error ''The target name is missing.''), mock_world)"
  by (simp add: module_defs sample_defs)

text \<open>
  C7 (amended). For every target name that is not empty after trimming and every list
  of supported resolvers in which a name occurs more than once after lower-casing, the
  promise is rejected, with no request made, with the message "A resolver may be used
  only once in the array of resolvers.".
\<close>

theorem C7_duplicate_resolver:
  assumes "name \<noteq> []" and "trim env name \<noteq> []"
    and "\<forall>r \<in> set rs. toLowerCase env r \<in> {''ned'', ''simbad'', ''vizier''}"
    and "\<not> distinct (map (toLowerCase env) rs)"
  shows "targetPosition env (Some name) (Some rs) w =
           (Rejected (Error ''A resolver may be used only once in the array of resolvers.''), w)"
proof -
  have name: "trimmedTargetName env (Some name) \<noteq> []"
    using assms(1,2) by (simp add: trimmed_name)
  have none: "unsupportedResolvers env rs = []"
    using assms(3) by (simp add: unsupported_empty)
  have some: "rs \<noteq> []"
    using assms(4) by auto
  have twice: "length (remdups (map (toLowerCase env) rs)) \<noteq> length (map (toLowerCase env) rs)"
    using assms(4) by (simp only: length_remdups_eq remdups_id_iff_distinct) simp
  have "request_url env (Some name) rs (BASE_URL w) =
          Inl (Error ''A resolver may be used only once in the array of resolvers.'')"
    unfolding request_url_def Let_def using name none some twice by simp
  then show ?thesis
    by (simp add: targetPosition_def selected_def)
qed

text \<open>The test with Simbad, NED, simbad and VizieR.\<close>

theorem C7_witness:
  "targetPosition offline (Some ''A'') (Some [''Simbad'', ''NED'', ''simbad'', ''VizieR''])
     mock_world =
   (Rejected (Error ''A resolver may be used only once in the array of resolvers.''), mock_world)"
proof -
  have name: "''A'' \<noteq> []" "trim offline ''A'' \<noteq> []"
    by (simp_all add: sample_defs)
  have lower: "map (toLowerCase offline) [''Simbad'', ''NED'', ''simbad'', ''VizieR''] =
                 [''simbad'', ''ned'', ''simbad'', ''vizier'']"
    unfolding offline_def by (rule sample_lower_case)
  have supported: "\<forall>r \<in> set [''Simbad'', ''NED'', ''simbad'', ''VizieR''].
                     toLowerCase offline r \<in> {''ned'', ''simbad'', ''vizier''}"
    by (simp add: sample_defs)
  have twice: "\<not> distinct (map (toLowerCase offline) [''Simbad'', ''NED'', ''simbad'', ''VizieR''])"
    unfolding lower by simp
  from C7_duplicate_resolver [OF name supported twice] show ?thesis .
qed

text \<open>
  The claim as it is written fails when the target name is a space: the first check
  rejects the call, and the message is not the one about resolvers used twice.
\<close>

theorem C7_counterexample:
  "unsupportedResolvers offline [''Simbad'', ''simbad''] = []
   \<and> map (toLowerCase offline) [''Simbad'', ''simbad''] = [''simbad'', ''simbad'']
   \<and> targetPosition offline (Some '' '') (Some [''Simbad'', ''simbad'']) mock_world =
     (Rejected (Error ''The target name is missing.''), mock_world)"
  by (simp add: module_defs sample_defs)

text \<open>
  C8. \<^verbatim>\<open>setMirror\<close> sets \<^verbatim>\<open>BASE_URL\<close> to the string it is given, whatever the string.
  The URL of the request of a call begins with \<^verbatim>\<open>BASE_URL\<close> as it is when the call is
  made, and the rest of the URL does not depend on it. So a call made before
  \<^verbatim>\<open>setMirror\<close> has requested the URL built from the old value, and \<^verbatim>\<open>setMirror\<close> does
  not change that; the same call made after \<^verbatim>\<open>setMirror\<close> requests the URL with the new
  value in its place.
\<close>

theorem C8_endpoint_at_call_time:
  assumes "request_url env targetName (selected rs) (BASE_URL w) = Inr url"
  shows "BASE_URL (setMirror mirror w) = mirror
       \<and> url = BASE_URL w @ drop (length (BASE_URL w)) url
       \<and> requests (snd (targetPosition env targetName rs w)) = requests w @ [url]
       \<and> requests (setMirror mirror (snd (targetPosition env targetName rs w))) =
           requests w @ [url]
       \<and> requests (snd (targetPosition env targetName rs (setMirror mirror w))) =
           requests w @ [mirror @ drop (length (BASE_URL w)) url]"
proof -
  obtain rest where url: "url = BASE_URL w @ rest"
    and other: "\<And>base. request_url env targetName (selected rs) base = Inr (base @ rest)"
    using request_url_base [OF assms] by blast
  have rest: "drop (length (BASE_URL w)) url = rest"
    by (simp add: url)
  have "request_url env targetName (selected rs) (BASE_URL (setMirror mirror w)) =
          Inr (mirror @ rest)"
    by (simp add: other setMirror_def)
  then have after: "requests (snd (targetPosition env targetName rs (setMirror mirror w))) =
                      requests w @ [mirror @ rest]"
    by (simp add: targetPosition_requests setMirror_def)
  have before: "requests (snd (targetPosition env targetName rs w)) = requests w @ [url]"
    using assms by (simp add: targetPosition_requests)
  have replaced: "BASE_URL (setMirror mirror w) = mirror"
    by (simp add: setMirror_def)
  have kept: "requests (setMirror mirror (snd (targetPosition env targetName rs w))) =
                requests (snd (targetPosition env targetName rs w))"
    by (simp add: setMirror_def)
  show ?thesis
    unfolding rest kept using replaced url before after by (intro conjI)
qed

text \<open>The Harvard mirror of the README, set after and before a call.\<close>

theorem C8_witness:
  "requests (setMirror ''https://vizier.cfa.harvard.edu/viz-bin/nph-sesame/''
      (snd (targetPosition
        (mock (Resolves (Response True (Inr NO_TARGET_XML))) (Inr no_target_document))
        (Some ''A'') (Some [''VizieR'']) mock_world))) =
     [''http://mock.saao.ac.za//-ox/V?A'']
   \<and> requests (snd (targetPosition
        (mock (Resolves (Response True (Inr NO_TARGET_XML))) (Inr no_target_document))
        (Some ''A'') (Some [''VizieR''])
        (setMirror ''https://vizier.cfa.harvard.edu/viz-bin/nph-sesame/'' mock_world))) =
     [''https://vizier.cfa.harvard.edu/viz-bin/nph-sesame//-ox/V?A'']"
proof -
  let ?env = "mock (Resolves (Response True (Inr NO_TARGET_XML))) (Inr no_target_document)"
  have req: "request_url ?env (Some ''A'') (selected (Some [''VizieR''])) (BASE_URL mock_world) =
               Inr ''http://mock.saao.ac.za//-ox/V?A''"
    by (simp add: module_defs sample_defs)
  from C8_endpoint_at_call_time
         [OF req, of "''https://vizier.cfa.harvard.edu/viz-bin/nph-sesame/''"]
  show ?thesis by (simp add: mock_world_fields)
qed

text \<open>
  C9 (amended). For every call that issues its request and gets a response with a
  success status and a body on which the XML parser hands its error to the callback
  (it meets the error before the root element is closed, so that the callback gets no
  document), the promise is rejected and is never fulfilled, neither with a position
  nor with \<^verbatim>\<open>null\<close>. The callback does not read the error of the parser: the promise
  is rejected with the \<^verbatim>\<open>TypeError\<close> of reading \<^verbatim>\<open>Sesame\<close> of the \<^verbatim>\<open>undefined\<close>
  document.
\<close>

theorem C9_malformed_reply:
  assumes "request_url env targetName (selected rs) (BASE_URL w) = Inr url"
    and "fetch env url = Resolves (Response True (Inr txt))"
    and "parseString env txt = Inl err"
  shows "fst (targetPosition env targetName rs w) = Rejected TypeError
       \<and> (\<forall>found. fst (targetPosition env targetName rs w) \<noteq> Fulfilled found)"
  using assms
  by (simp add: targetPosition_requests settle_def parseText_def extract_target_def
        resolver_of_def)

text \<open>A reply cut short, on which the parser reports an unclosed root tag.\<close>

theorem C9_witness:
  "fst (targetPosition
          (mock (Resolves (Response True (Inr ''<Sesame><Target>'')))
                (Inl (Error ''Unclosed root tag'')))
          (Some ''A'') None mock_world) = Rejected TypeError"
proof -
  let ?env = "mock (Resolves (Response True (Inr ''<Sesame><Target>'')))
                   (Inl (Error ''Unclosed root tag''))"
  have reply: "fetch ?env ''http://mock.saao.ac.za//-ox/SNV?A'' =
                 Resolves (Response True (Inr ''<Sesame><Target>''))"
    by (simp add: mock_def)
  have failed: "parseString ?env ''<Sesame><Target>'' = Inl (Error ''Unclosed root tag'')"
    by (simp add: mock_def)
  from C9_malformed_reply [OF sample_request reply failed] show ?thesis by simp
qed

text \<open>
  The claim as it is written fails on a body that is not well-formed because text
  follows the root element: the callback has been run with the document when the root
  element was closed, and the promise is fulfilled with the position.
\<close>

theorem C9_counterexample:
  "trailing_text_xml =
     ''<Sesame><Target><name>HIP123</name><Resolver><jradeg>10.5</jradeg><jdedeg>-3</jdedeg></Resolver></Target></Sesame>garbage''
   \<and> targetPosition
        (mock (Resolves (Response True (Inr trailing_text_xml)))
              (Inr (target_document ''10.5'' ''-3'')))
        (Some ''A'') None mock_world =
      (Fulfilled (Some \<lparr>rightAscension = Num 10.5, declination = Num (- 3),
                         equinox = Num 2000\<rparr>),
       \<lparr>BASE_URL = ''http://mock.saao.ac.za/'',
        requests = [''http://mock.saao.ac.za//-ox/SNV?A'']\<rparr>)"
  by (simp add: module_defs sample_defs trailing_text_xml_def target_xml_def)

text \<open>
  C10. Whatever its arguments and whatever the service answers, a call of
  \<^verbatim>\<open>targetPosition\<close> leaves \<^verbatim>\<open>BASE_URL\<close> as it was. \<^verbatim>\<open>setMirror\<close> changes
  \<^verbatim>\<open>BASE_URL\<close> and nothing else of the state.
\<close>

theorem C10_base_url_frame:
  "BASE_URL (snd (targetPosition env targetName rs w)) = BASE_URL w
   \<and> requests (setMirror url w) = requests w
   \<and> setMirror url w = w\<lparr>BASE_URL := url\<rparr>"
  by (simp add: targetPosition_def setMirror_def split: sum.splits)

text \<open>A call of the tests, and the mirror of the README.\<close>

theorem C10_witness:
  "BASE_URL (snd (targetPosition
      (mock (Resolves (Response True (Inr (target_xml ''0'' ''0''))))
            (Inr (target_document ''0'' ''0'')))
      (Some ''A'') None mock_world)) = ''http://mock.saao.ac.za/''
   \<and> requests (setMirror ''https://vizier.cfa.harvard.edu/viz-bin/nph-sesame/'' mock_world) = []"
proof -
  from C10_base_url_frame
         [of "mock (Resolves (Response True (Inr (target_xml ''0'' ''0''))))
                   (Inr (target_document ''0'' ''0''))"
             "Some ''A''" None mock_world
             "''https://vizier.cfa.harvard.edu/viz-bin/nph-sesame/''"]
  show ?thesis by (simp add: mock_world_fields)
qed

end
